theory Spec2Isabelle
  imports Main
begin

section \<open>The yearmonthdelta value type\<close>

text \<open>
  The class \<^verbatim>\<open>yearmonthdelta\<close> of \<^verbatim>\<open>yearmonthdelta.py\<close> stores three attributes,
  assigned by \<^verbatim>\<open>__init__\<close> without any normalisation. Python integers are unbounded, so
  the two counts are of type \<^typ>\<open>int\<close>; \<^verbatim>\<open>__init__\<close> coerces the flag with
  \<^verbatim>\<open>bool(rounding)\<close>, so it is a \<^typ>\<open>bool\<close>.
\<close>

record yearmonthdelta =
  years :: int
  months :: int
  rounding :: bool

subsection \<open>Normalisation\<close>

text \<open>
  Python's \<^verbatim>\<open>divmod(a, b)\<close> on integers is floor division with the matching remainder,
  which for a positive divisor is what \<open>div\<close> and \<open>mod\<close> on \<^typ>\<open>int\<close> compute. The
  only call in the source has the divisor \<open>12\<close>.
\<close>

definition py_divmod :: "int \<Rightarrow> int \<Rightarrow> int \<times> int" where
  "py_divmod a b = (a div b, a mod b)"

text \<open>
  \<^verbatim>\<open>_normalize(years, months)\<close>: the total, the early return for zero, the
  \<^verbatim>\<open>divmod\<close> of \<^verbatim>\<open>abs(total) - 1\<close> with the months shifted up by one, and the
  sign swap for a negative total.
\<close>

definition normalize :: "int \<Rightarrow> int \<Rightarrow> int \<times> int" where
  "normalize ys ms =
     (let total = ys * 12 + ms in
      if total = 0 then (0, 0)
      else
        (let (ys1, ms1) = py_divmod (\<bar>total\<bar> - 1) 12;
             ms2 = ms1 + 1
         in if total < 0 then (- ys1, - ms2) else (ys1, ms2)))"

subsection \<open>The host's calendar and dates\<close>

text \<open>
  The module imports \<^verbatim>\<open>calendar\<close> and \<^verbatim>\<open>datetime\<close> from the Python standard
  library; the source uses \<^verbatim>\<open>long\<close>, so the library is that of Python 2.7. The parts
  that \<^verbatim>\<open>_add_datetime\<close> reaches are written out here: the year range of
  \<^verbatim>\<open>datetime\<close>, the leap-year rule and the month table of \<^verbatim>\<open>calendar\<close>, the
  argument checks of the date constructor (year, then month, then day), and
  \<^verbatim>\<open>calendar.monthrange\<close>, which rejects a month outside 1..12 and then builds the
  first day of the month through \<^verbatim>\<open>calendar.weekday\<close>.
\<close>

datatype error =
    TypeError
  | YearOutOfRange      \<comment> \<open>ValueError: year is out of range\<close>
  | MonthOutOfRange     \<comment> \<open>ValueError: month must be in 1..12\<close>
  | DayOutOfRange       \<comment> \<open>ValueError: day is out of range for month\<close>
  | TimeOutOfRange      \<comment> \<open>ValueError of an hour, minute, second or microsecond\<close>
  | IllegalMonthError   \<comment> \<open>raised by calendar.monthrange, a ValueError as well\<close>

definition MINYEAR :: int where
  "MINYEAR = 1"

definition MAXYEAR :: int where
  "MAXYEAR = 9999"

definition isleap :: "int \<Rightarrow> bool" where
  "isleap y = (y mod 4 = 0 \<and> (y mod 100 \<noteq> 0 \<or> y mod 400 = 0))"

definition mdays :: "int list" where
  "mdays = [0, 31, 28, 31, 30, 31, 30, 31, 31, 30, 31, 30, 31]"

text \<open>
  The number of days of a month, \<^verbatim>\<open>mdays[month] + (month == February and isleap(year))\<close>.
  The host reads the table only after it has checked the month, and so does every use
  below.
\<close>

definition days_in_month :: "int \<Rightarrow> int \<Rightarrow> int" where
  "days_in_month y m = mdays ! nat m + (if m = 2 \<and> isleap y then 1 else 0)"

definition check_date_args :: "int \<Rightarrow> int \<Rightarrow> int \<Rightarrow> error + unit" where
  "check_date_args y m d =
     (if y < MINYEAR \<or> MAXYEAR < y then Inl YearOutOfRange
      else if m < 1 \<or> 12 < m then Inl MonthOutOfRange
      else if d < 1 \<or> days_in_month y m < d then Inl DayOutOfRange
      else Inr ())"

text \<open>
  \<^verbatim>\<open>calendar.monthrange(year, month)\<close> returns the weekday of the first day and the number
  of days; \<^verbatim>\<open>_add_datetime\<close> reads index 1 only, so the model returns the number of days,
  after the two checks that can raise. (Later versions of the library leave the check of
  the year to the constructor that \<^verbatim>\<open>replace\<close> calls, which raises the same error.)
\<close>

definition monthrange :: "int \<Rightarrow> int \<Rightarrow> error + int" where
  "monthrange y m =
     (if \<not> (1 \<le> m \<and> m \<le> 12) then Inl IllegalMonthError
      else case check_date_args y m 1 of
             Inl e \<Rightarrow> Inl e
           | Inr _ \<Rightarrow> Inr (days_in_month y m))"

text \<open>
  A \<^verbatim>\<open>datetime.date\<close> has a year, a month and a day; a \<^verbatim>\<open>datetime.datetime\<close> has a
  time of day besides (the time zone object, which no function here reads, is left
  out).
\<close>

record timeofday =
  hour :: int
  minute :: int
  second :: int
  microsecond :: int

datatype temporal =
    Date (year: int) (month: int) (day: int)
  | DateTime (year: int) (month: int) (day: int) (tod: timeofday)

definition valid_time :: "timeofday \<Rightarrow> bool" where
  "valid_time t =
     (0 \<le> hour t \<and> hour t \<le> 23 \<and> 0 \<le> minute t \<and> minute t \<le> 59 \<and>
      0 \<le> second t \<and> second t \<le> 59 \<and> 0 \<le> microsecond t \<and> microsecond t \<le> 999999)"

definition check_time_args :: "timeofday \<Rightarrow> error + unit" where
  "check_time_args t = (if valid_time t then Inr () else Inl TimeOutOfRange)"

text \<open>The values the host can construct: what the date and time constructors accept.\<close>

fun valid_temporal :: "temporal \<Rightarrow> bool" where
  "valid_temporal (Date y m d) =
     (MINYEAR \<le> y \<and> y \<le> MAXYEAR \<and> 1 \<le> m \<and> m \<le> 12 \<and> 1 \<le> d \<and> d \<le> days_in_month y m)"
| "valid_temporal (DateTime y m d t) =
     (MINYEAR \<le> y \<and> y \<le> MAXYEAR \<and> 1 \<le> m \<and> m \<le> 12 \<and> 1 \<le> d \<and> d \<le> days_in_month y m \<and>
      valid_time t)"

text \<open>
  \<^verbatim>\<open>dt.replace(year, month, day)\<close> builds a new value of the same type through the
  constructor, which checks its arguments again; a date-time keeps its time of day.
\<close>

fun replace :: "temporal \<Rightarrow> int \<Rightarrow> int \<Rightarrow> int \<Rightarrow> error + temporal" where
  "replace (Date _ _ _) y m d =
     (case check_date_args y m d of
        Inl e \<Rightarrow> Inl e
      | Inr _ \<Rightarrow> Inr (Date y m d))"
| "replace (DateTime _ _ _ t) y m d =
     (case check_date_args y m d of
        Inl e \<Rightarrow> Inl e
      | Inr _ \<Rightarrow>
          (case check_time_args t of
             Inl e \<Rightarrow> Inl e
           | Inr _ \<Rightarrow> Inr (DateTime y m d t)))"

subsection \<open>Applying a delta to a date\<close>

text \<open>
  \<^verbatim>\<open>_add_datetime(self, dt)\<close>: the day is clamped only when \<^verbatim>\<open>self.rounding\<close> holds,
  and the lookup of \<^verbatim>\<open>calendar.monthrange\<close> happens only then.
\<close>

definition add_datetime :: "yearmonthdelta \<Rightarrow> temporal \<Rightarrow> error + temporal" where
  "add_datetime self dt =
     (let d = day dt;
          (y, m) = normalize (year dt + years self) (month dt + months self)
      in if rounding self
         then (case monthrange y m of
                 Inl e \<Rightarrow> Inl e
               | Inr n \<Rightarrow> replace dt y m (min d n))
         else replace dt y m d)"

subsection \<open>Operands and the special methods\<close>

text \<open>
  The operands the operators meet: another delta, an integer (\<^verbatim>\<open>int\<close> or \<^verbatim>\<open>long\<close>), a
  date or date-time, and, as types the class does not support, a float (a mantissa and
  a binary exponent) and a string. \<open>NotImplemented\<close> is the value a special method
  returns to hand the operation back to the interpreter.
\<close>

datatype pyval =
    Ymd yearmonthdelta
  | PyInt int
  | PyDate temporal
  | PyFloat int int
  | PyStr string
  | NotImplemented

text \<open>The test \<^verbatim>\<open>isinstance(other, yearmonthdelta)\<close> and the one for integers.\<close>

definition is_ymd :: "pyval \<Rightarrow> bool" where
  "is_ymd v = (case v of Ymd _ \<Rightarrow> True | _ \<Rightarrow> False)"

definition is_int :: "pyval \<Rightarrow> bool" where
  "is_int v = (case v of PyInt _ \<Rightarrow> True | _ \<Rightarrow> False)"

definition lift_date :: "error + temporal \<Rightarrow> error + pyval" where
  "lift_date r = (case r of Inl e \<Rightarrow> Inl e | Inr dt \<Rightarrow> Inr (PyDate dt))"

definition dunder_add :: "yearmonthdelta \<Rightarrow> pyval \<Rightarrow> error + pyval" where
  "dunder_add self other =
     (case other of
        PyDate dt \<Rightarrow> lift_date (add_datetime self dt)
      | Ymd b \<Rightarrow>
          Inr (Ymd \<lparr>years = years self + years b, months = months self + months b,
                    rounding = (rounding self \<and> rounding b)\<rparr>)
      | PyInt n \<Rightarrow>
          Inr (Ymd \<lparr>years = years self, months = months self + n, rounding = rounding self\<rparr>)
      | _ \<Rightarrow> Inr NotImplemented)"

definition dunder_radd :: "yearmonthdelta \<Rightarrow> pyval \<Rightarrow> error + pyval" where
  "dunder_radd self other =
     (case other of
        PyDate dt \<Rightarrow> lift_date (add_datetime self dt)
      | _ \<Rightarrow> Inl TypeError)"

definition dunder_pos :: "yearmonthdelta \<Rightarrow> yearmonthdelta" where
  "dunder_pos self = \<lparr>years = years self, months = months self, rounding = rounding self\<rparr>"

definition dunder_neg :: "yearmonthdelta \<Rightarrow> yearmonthdelta" where
  "dunder_neg self = \<lparr>years = - years self, months = - months self, rounding = rounding self\<rparr>"

text \<open>
  The unary minus of the interpreter, which \<^verbatim>\<open>__sub__\<close> applies to its operand before
  it calls \<^verbatim>\<open>__add__\<close>: a delta answers with \<^verbatim>\<open>__neg__\<close>, numbers negate, and a date, a
  string or \<open>NotImplemented\<close> has no unary minus (TypeError: bad operand type).
\<close>

definition py_neg :: "pyval \<Rightarrow> error + pyval" where
  "py_neg v =
     (case v of
        Ymd b \<Rightarrow> Inr (Ymd (dunder_neg b))
      | PyInt n \<Rightarrow> Inr (PyInt (- n))
      | PyFloat f e \<Rightarrow> Inr (PyFloat (- f) e)
      | _ \<Rightarrow> Inl TypeError)"

definition dunder_sub :: "yearmonthdelta \<Rightarrow> pyval \<Rightarrow> error + pyval" where
  "dunder_sub self other =
     (case py_neg other of
        Inl e \<Rightarrow> Inl e
      | Inr negated \<Rightarrow> dunder_add self negated)"

definition dunder_rsub :: "yearmonthdelta \<Rightarrow> pyval \<Rightarrow> error + pyval" where
  "dunder_rsub self other =
     (case other of
        PyDate dt \<Rightarrow> lift_date (add_datetime (dunder_neg self) dt)
      | _ \<Rightarrow> Inl TypeError)"

definition dunder_mul :: "yearmonthdelta \<Rightarrow> pyval \<Rightarrow> error + pyval" where
  "dunder_mul self other =
     (case other of
        PyInt n \<Rightarrow>
          Inr (Ymd \<lparr>years = years self * n, months = months self * n,
                    rounding = rounding self\<rparr>)
      | _ \<Rightarrow> Inr NotImplemented)"

definition dunder_rmul :: "yearmonthdelta \<Rightarrow> pyval \<Rightarrow> error + pyval" where
  "dunder_rmul self other =
     (case dunder_mul self other of
        Inl e \<Rightarrow> Inl e
      | Inr product \<Rightarrow> if product = NotImplemented then Inl TypeError else Inr product)"

subsection \<open>The binary operators\<close>

text \<open>
  For \<^verbatim>\<open>a op x\<close> with a delta on the left the interpreter calls the method of \<^verbatim>\<open>a\<close>.
  When that returns \<open>NotImplemented\<close> it asks the reflected method of \<^verbatim>\<open>x\<close>, unless
  \<^verbatim>\<open>x\<close> has the type of \<^verbatim>\<open>a\<close>; no host type has a reflected method that accepts a
  delta, so the operation ends in a TypeError. For \<^verbatim>\<open>x op a\<close> with a host value on the
  left, the method of \<^verbatim>\<open>x\<close> does not know deltas and the reflected method of \<^verbatim>\<open>a\<close>
  decides.
\<close>

definition unsupported :: "error + pyval \<Rightarrow> error + pyval" where
  "unsupported r =
     (case r of
        Inl e \<Rightarrow> Inl e
      | Inr v \<Rightarrow> if v = NotImplemented then Inl TypeError else Inr v)"

definition delta_plus :: "yearmonthdelta \<Rightarrow> pyval \<Rightarrow> error + pyval" where
  "delta_plus a x = unsupported (dunder_add a x)"

definition plus_delta :: "pyval \<Rightarrow> yearmonthdelta \<Rightarrow> error + pyval" where
  "plus_delta x a = (case x of Ymd b \<Rightarrow> delta_plus b (Ymd a) | _ \<Rightarrow> dunder_radd a x)"

definition delta_minus :: "yearmonthdelta \<Rightarrow> pyval \<Rightarrow> error + pyval" where
  "delta_minus a x = unsupported (dunder_sub a x)"

definition minus_delta :: "pyval \<Rightarrow> yearmonthdelta \<Rightarrow> error + pyval" where
  "minus_delta x a = (case x of Ymd b \<Rightarrow> delta_minus b (Ymd a) | _ \<Rightarrow> dunder_rsub a x)"

definition delta_times :: "yearmonthdelta \<Rightarrow> pyval \<Rightarrow> error + pyval" where
  "delta_times a x = unsupported (dunder_mul a x)"

definition times_delta :: "pyval \<Rightarrow> yearmonthdelta \<Rightarrow> error + pyval" where
  "times_delta x a = (case x of Ymd b \<Rightarrow> delta_times b (Ymd a) | _ \<Rightarrow> dunder_rmul a x)"

subsection \<open>Comparison\<close>

definition total_months :: "yearmonthdelta \<Rightarrow> int" where
  "total_months self = years self * 12 + months self"

definition dunder_lt :: "yearmonthdelta \<Rightarrow> pyval \<Rightarrow> error + bool" where
  "dunder_lt self other =
     (case other of
        Ymd b \<Rightarrow> Inr (total_months self < total_months b)
      | _ \<Rightarrow> Inl TypeError)"

definition dunder_eq :: "yearmonthdelta \<Rightarrow> pyval \<Rightarrow> error + bool" where
  "dunder_eq self other =
     (case other of
        Ymd b \<Rightarrow> Inr (total_months self = total_months b)
      | _ \<Rightarrow> Inl TypeError)"

definition dunder_ne :: "yearmonthdelta \<Rightarrow> pyval \<Rightarrow> error + bool" where
  "dunder_ne self other =
     (case dunder_eq self other of
        Inl e \<Rightarrow> Inl e
      | Inr b \<Rightarrow> Inr (\<not> b))"

text \<open>
  The class is decorated with \<^verbatim>\<open>functools.total_ordering\<close>, which finds \<^verbatim>\<open>__lt__\<close>
  and adds the three other orderings from it:
  \<^verbatim>\<open>__gt__\<close> is \<^verbatim>\<open>not (self < other or self == other)\<close>,
  \<^verbatim>\<open>__le__\<close> is \<^verbatim>\<open>self < other or self == other\<close> and
  \<^verbatim>\<open>__ge__\<close> is \<^verbatim>\<open>not self < other\<close>. The \<^verbatim>\<open>or\<close> evaluates its right operand only
  when the left one is false, and an exception of either leaves the method.
\<close>

definition lt_or_eq :: "yearmonthdelta \<Rightarrow> pyval \<Rightarrow> error + bool" where
  "lt_or_eq self other =
     (case dunder_lt self other of
        Inl e \<Rightarrow> Inl e
      | Inr b \<Rightarrow> if b then Inr True else dunder_eq self other)"

definition dunder_gt :: "yearmonthdelta \<Rightarrow> pyval \<Rightarrow> error + bool" where
  "dunder_gt self other =
     (case lt_or_eq self other of
        Inl e \<Rightarrow> Inl e
      | Inr b \<Rightarrow> Inr (\<not> b))"

definition dunder_le :: "yearmonthdelta \<Rightarrow> pyval \<Rightarrow> error + bool" where
  "dunder_le self other = lt_or_eq self other"

definition dunder_ge :: "yearmonthdelta \<Rightarrow> pyval \<Rightarrow> error + bool" where
  "dunder_ge self other =
     (case dunder_lt self other of
        Inl e \<Rightarrow> Inl e
      | Inr b \<Rightarrow> Inr (\<not> b))"

subsection \<open>Rendering\<close>

text \<open>
  \<^verbatim>\<open>"{}".format(n)\<close> writes an integer in decimal, with a minus sign when it is
  negative.
\<close>

fun str_nat :: "nat \<Rightarrow> string" where
  "str_nat n =
     (if n < 10 then [''0123456789'' ! n]
      else str_nat (n div 10) @ [''0123456789'' ! (n mod 10)])"

declare str_nat.simps [simp del]

definition str_int :: "int \<Rightarrow> string" where
  "str_int i = (if i < 0 then CHR ''-'' # str_nat (nat (- i)) else str_nat (nat i))"

definition ngettext :: "string \<Rightarrow> string \<Rightarrow> int \<Rightarrow> string" where
  "ngettext singular plural count = (if \<bar>count\<bar> = 1 then singular else plural)"

definition dunder_str :: "yearmonthdelta \<Rightarrow> string" where
  "dunder_str self =
     (let (ys, ms) = normalize (years self) (months self)
      in str_int ys @ '' '' @ ngettext ''year'' ''years'' ys @ '' '' @
         str_int ms @ '' '' @ ngettext ''month'' ''months'' ms)"

section \<open>Normalisation is canonical\<close>

lemma normalize_zero: "ys * 12 + ms = 0 \<Longrightarrow> normalize ys ms = (0, 0)"
  by (simp add: normalize_def)

lemma normalize_pos:
  "0 < ys * 12 + ms \<Longrightarrow>
   normalize ys ms = ((ys * 12 + ms - 1) div 12, (ys * 12 + ms - 1) mod 12 + 1)"
  by (simp add: normalize_def py_divmod_def Let_def)

lemma normalize_neg:
  "ys * 12 + ms < 0 \<Longrightarrow>
   normalize ys ms =
     (- ((- (ys * 12 + ms) - 1) div 12), - ((- (ys * 12 + ms) - 1) mod 12 + 1))"
  by (simp add: normalize_def py_divmod_def Let_def)

lemma normalize_closed_form:
  "normalize ys ms =
     (sgn (ys * 12 + ms) * ((\<bar>ys * 12 + ms\<bar> - 1) div 12),
      sgn (ys * 12 + ms) * (((\<bar>ys * 12 + ms\<bar> - 1) mod 12 + 1) * \<bar>sgn (ys * 12 + ms)\<bar>))"
proof -
  consider "ys * 12 + ms = 0" | "0 < ys * 12 + ms" | "ys * 12 + ms < 0"
    by linarith
  then show ?thesis
  proof cases
    case 1
    then show ?thesis by (simp add: normalize_zero)
  next
    case 2
    then show ?thesis by (simp add: normalize_pos)
  next
    case 3
    then show ?thesis by (simp add: normalize_neg)
  qed
qed

lemma normalize_total:
  "fst (normalize ys ms) * 12 + snd (normalize ys ms) = ys * 12 + ms"
proof -
  consider "ys * 12 + ms = 0" | "0 < ys * 12 + ms" | "ys * 12 + ms < 0"
    by linarith
  then show ?thesis
  proof cases
    case 1
    then show ?thesis by (simp add: normalize_zero)
  next
    case 2
    have e: "(ys * 12 + ms - 1) div 12 * 12 + (ys * 12 + ms - 1) mod 12 = ys * 12 + ms - 1"
      by simp
    show ?thesis
      unfolding normalize_pos [OF 2] fst_conv snd_conv using e by linarith
  next
    case 3
    have e: "(- (ys * 12 + ms) - 1) div 12 * 12 + (- (ys * 12 + ms) - 1) mod 12
            = - (ys * 12 + ms) - 1"
      by simp
    show ?thesis
      unfolding normalize_neg [OF 3] fst_conv snd_conv using e by linarith
  qed
qed

lemma normalize_nonzero:
  assumes "ys * 12 + ms \<noteq> 0"
  shows "fst (normalize ys ms) * 12 + snd (normalize ys ms) = ys * 12 + ms \<and>
     1 \<le> \<bar>snd (normalize ys ms)\<bar> \<and> \<bar>snd (normalize ys ms)\<bar> \<le> 12 \<and>
     sgn (snd (normalize ys ms)) = sgn (ys * 12 + ms) \<and>
     fst (normalize ys ms) = sgn (ys * 12 + ms) * ((\<bar>ys * 12 + ms\<bar> - 1) div 12) \<and>
     snd (normalize ys ms) = sgn (ys * 12 + ms) * ((\<bar>ys * 12 + ms\<bar> - 1) mod 12 + 1)"
proof -
  from assms consider "0 < ys * 12 + ms" | "ys * 12 + ms < 0"
    by linarith
  then show ?thesis
  proof cases
    case 1
    have b: "0 \<le> (ys * 12 + ms - 1) mod 12" "(ys * 12 + ms - 1) mod 12 < 12"
      by simp_all
    have s: "sgn ((ys * 12 + ms - 1) mod 12 + 1) = 1"
      using b by simp
    from 1 b s show ?thesis
      using normalize_total [of ys ms] by (simp add: normalize_pos)
  next
    case 2
    have b: "0 \<le> (- (ys * 12 + ms) - 1) mod 12" "(- (ys * 12 + ms) - 1) mod 12 < 12"
      by simp_all
    have s: "sgn (- ((- (ys * 12 + ms) - 1) mod 12 + 1)) = - 1"
      using b by simp
    have a: "\<bar>ys * 12 + ms\<bar> = - (ys * 12 + ms)" "sgn (ys * 12 + ms) = - 1"
      using 2 by simp_all
    have n: "normalize ys ms =
      (- ((- (ys * 12 + ms) - 1) div 12), - ((- (ys * 12 + ms) - 1) mod 12 + 1))"
      by (rule normalize_neg [OF 2])
    show ?thesis
      unfolding a using b s normalize_total [of ys ms] unfolding n fst_conv snd_conv
      by simp
  qed
qed

text \<open>
  Claim C1. For all integers \<open>ys\<close> and \<open>ms\<close> with total \<open>ys * 12 + ms\<close>:
  \<open>normalize\<close> returns \<open>(0, 0)\<close> when the total is zero; otherwise it returns a pair
  with the same total, whose months lie between 1 and 12 in absolute value and have
  the sign of the total, the years being \<open>sgn total * ((\<bar>total\<bar> - 1) div 12)\<close> and
  the months \<open>sgn total * ((\<bar>total\<bar> - 1) mod 12 + 1)\<close>. In particular
  \<open>normalize 2000 25 = (2002, 1)\<close> and \<open>normalize 1 (- 25) = (- 1, - 1)\<close>.
\<close>

theorem normalize_spec:
  "(ys * 12 + ms = 0 \<longrightarrow> normalize ys ms = (0, 0)) \<and>
   (ys * 12 + ms \<noteq> 0 \<longrightarrow>
      fst (normalize ys ms) * 12 + snd (normalize ys ms) = ys * 12 + ms \<and>
      1 \<le> \<bar>snd (normalize ys ms)\<bar> \<and> \<bar>snd (normalize ys ms)\<bar> \<le> 12 \<and>
      sgn (snd (normalize ys ms)) = sgn (ys * 12 + ms) \<and>
      fst (normalize ys ms) = sgn (ys * 12 + ms) * ((\<bar>ys * 12 + ms\<bar> - 1) div 12) \<and>
      snd (normalize ys ms) = sgn (ys * 12 + ms) * ((\<bar>ys * 12 + ms\<bar> - 1) mod 12 + 1)) \<and>
   normalize 2000 25 = (2002, 1) \<and> normalize 1 (- 25) = (- 1, - 1)"
proof (intro conjI impI)
  assume "ys * 12 + ms = 0"
  then show "normalize ys ms = (0, 0)" by (rule normalize_zero)
next
  show "normalize 2000 25 = (2002, 1)"
    by (simp add: normalize_def py_divmod_def)
next
  show "normalize 1 (- 25) = (- 1, - 1)"
    by (simp add: normalize_def py_divmod_def)
qed (use normalize_nonzero [of ys ms] in blast)+

theorem normalize_spec_witness:
  "((1::int) * 12 + (- 12) = 0 \<and> normalize 1 (- 12) = (0, 0)) \<and>
   ((1::int) * 12 + (- 25) \<noteq> 0 \<and>
    fst (normalize 1 (- 25)) * 12 + snd (normalize 1 (- 25)) = - 13 \<and>
    1 \<le> \<bar>snd (normalize 1 (- 25))\<bar> \<and> \<bar>snd (normalize 1 (- 25))\<bar> \<le> 12 \<and>
    sgn (snd (normalize 1 (- 25))) = - 1 \<and>
    fst (normalize 1 (- 25)) = - 1 \<and> snd (normalize 1 (- 25)) = - 1)"
proof -
  have z: "(1::int) * 12 + (- 12) = 0" by simp
  have nz: "(1::int) * 12 + (- 25) \<noteq> 0" by simp
  from normalize_spec [of 1 "- 12"] z have a: "normalize 1 (- 12) = (0, 0)"
    by blast
  from normalize_spec [of 1 "- 25"] nz
  have b: "fst (normalize 1 (- 25)) * 12 + snd (normalize 1 (- 25)) = 1 * 12 + (- 25) \<and>
     1 \<le> \<bar>snd (normalize 1 (- 25))\<bar> \<and> \<bar>snd (normalize 1 (- 25))\<bar> \<le> 12 \<and>
     sgn (snd (normalize 1 (- 25))) = sgn ((1::int) * 12 + (- 25)) \<and>
     fst (normalize 1 (- 25)) = sgn ((1::int) * 12 + (- 25)) * ((\<bar>1 * 12 + (- 25)\<bar> - 1) div 12) \<and>
     snd (normalize 1 (- 25)) = sgn ((1::int) * 12 + (- 25)) * ((\<bar>1 * 12 + (- 25)\<bar> - 1) mod 12 + 1)"
    by blast
  from z nz a b show ?thesis by simp
qed

section \<open>The host calendar\<close>

lemma days_in_month_ge: 
  assumes "1 \<le> m" "m \<le> 12"
  shows "28 \<le> days_in_month y m"
proof -
  from assms have "m \<in> {1, 2, 3, 4, 5, 6, 7, 8, 9, 10, 11, 12}"
    by simp presburger
  then show ?thesis
    by (auto simp add: days_in_month_def mdays_def)
qed

lemma check_date_args_ok:
  "check_date_args y m d = Inr () \<longleftrightarrow>
     MINYEAR \<le> y \<and> y \<le> MAXYEAR \<and> 1 \<le> m \<and> m \<le> 12 \<and> 1 \<le> d \<and> d \<le> days_in_month y m"
  by (auto simp add: check_date_args_def)

lemma monthrange_ok:
  assumes "MINYEAR \<le> y" "y \<le> MAXYEAR" "1 \<le> m" "m \<le> 12"
  shows "monthrange y m = Inr (days_in_month y m)"
proof -
  have "1 \<le> days_in_month y m"
    using days_in_month_ge [OF assms(3,4), of y] by linarith
  with assms have "check_date_args y m 1 = Inr ()"
    by (simp add: check_date_args_ok)
  with assms show ?thesis
    by (simp add: monthrange_def)
qed

lemma monthrange_month:
  "\<not> (1 \<le> m \<and> m \<le> 12) \<Longrightarrow> monthrange y m = Inl IllegalMonthError"
  by (simp add: monthrange_def)

lemma monthrange_year:
  "1 \<le> m \<Longrightarrow> m \<le> 12 \<Longrightarrow> y < MINYEAR \<or> MAXYEAR < y \<Longrightarrow> monthrange y m = Inl YearOutOfRange"
  by (simp add: monthrange_def check_date_args_def)

section \<open>The normalised month and the target range\<close>

lemma normalize_month_le:
  "snd (normalize ys ms) \<le> 12"
proof (cases "ys * 12 + ms = 0")
  case True
  then show ?thesis by (simp add: normalize_zero)
next
  case False
  from normalize_nonzero [OF False] show ?thesis by linarith
qed

lemma normalize_month_pos:
  "1 \<le> snd (normalize ys ms) \<longleftrightarrow> 0 < ys * 12 + ms"
proof (cases "ys * 12 + ms = 0")
  case True
  then show ?thesis by (simp add: normalize_zero)
next
  case False
  then consider "0 < ys * 12 + ms" | "ys * 12 + ms < 0" by linarith
  then show ?thesis
  proof cases
    case 1
    then show ?thesis by (simp add: normalize_pos)
  next
    case 2
    have "0 \<le> (- (ys * 12 + ms) - 1) mod 12" by simp
    with 2 show ?thesis by (simp add: normalize_neg)
  qed
qed

lemma normalize_target_range:
  assumes "normalize ys ms = (y', m')"
  shows "(MINYEAR \<le> y' \<and> y' \<le> MAXYEAR \<and> 1 \<le> m') \<longleftrightarrow>
         (12 < ys * 12 + ms \<and> ys * 12 + ms \<le> 120000)"
proof (cases "0 < ys * 12 + ms")
  case True
  from assms have y: "y' = (ys * 12 + ms - 1) div 12" and m: "m' = (ys * 12 + ms - 1) mod 12 + 1"
    by (simp_all add: normalize_pos [OF True])
  have "0 \<le> (ys * 12 + ms - 1) mod 12" by simp
  then have "1 \<le> m'" using m by linarith
  moreover have "1 \<le> y' \<longleftrightarrow> 12 < ys * 12 + ms"
    unfolding y by presburger
  moreover have "y' \<le> 9999 \<longleftrightarrow> ys * 12 + ms \<le> 120000"
    unfolding y by presburger
  ultimately show ?thesis
    by (simp add: MINYEAR_def MAXYEAR_def)
next
  case False
  have "1 \<le> m' \<longleftrightarrow> 0 < ys * 12 + ms"
    using normalize_month_pos [of ys ms] assms by simp
  with False show ?thesis by linarith
qed

section \<open>Application to a date\<close>

lemma add_datetime_rounding:
  assumes "rounding v"
    and "normalize (year dt + years v) (month dt + months v) = (y', m')"
    and "MINYEAR \<le> y'" "y' \<le> MAXYEAR" "1 \<le> m'"
  shows "add_datetime v dt = replace dt y' m' (min (day dt) (days_in_month y' m'))"
proof -
  have "m' \<le> 12"
    using normalize_month_le [of "year dt + years v" "month dt + months v"] assms(2) by simp
  with assms have "monthrange y' m' = Inr (days_in_month y' m')"
    by (simp add: monthrange_ok)
  with assms(1,2) show ?thesis
    by (simp add: add_datetime_def)
qed

lemma add_datetime_rounding_fail:
  assumes "rounding v"
    and "normalize (year dt + years v) (month dt + months v) = (y', m')"
    and "\<not> (MINYEAR \<le> y' \<and> y' \<le> MAXYEAR \<and> 1 \<le> m')"
  shows "add_datetime v dt = Inl (if m' < 1 then IllegalMonthError else YearOutOfRange)"
proof -
  have le: "m' \<le> 12"
    using normalize_month_le [of "year dt + years v" "month dt + months v"] assms(2) by simp
  show ?thesis
  proof (cases "m' < 1")
    case True
    then have "monthrange y' m' = Inl IllegalMonthError"
      by (simp add: monthrange_month)
    with assms(1,2) True show ?thesis
      by (simp add: add_datetime_def)
  next
    case False
    with assms(3) le have "monthrange y' m' = Inl YearOutOfRange"
      by (intro monthrange_year) auto
    with assms(1,2) False show ?thesis
      by (simp add: add_datetime_def)
  qed
qed

lemma add_datetime_strict:
  assumes "\<not> rounding v"
    and "normalize (year dt + years v) (month dt + months v) = (y', m')"
  shows "add_datetime v dt = replace dt y' m' (day dt)"
  using assms by (simp add: add_datetime_def)

lemma clamped_day_ok:
  assumes "MINYEAR \<le> y'" "y' \<le> MAXYEAR" "1 \<le> m'" "m' \<le> 12" "1 \<le> d"
  shows "check_date_args y' m' (min d (days_in_month y' m')) = Inr ()"
proof -
  have "1 \<le> days_in_month y' m'"
    using days_in_month_ge [OF assms(3,4), of y'] by linarith
  with assms show ?thesis
    by (simp add: check_date_args_ok)
qed

lemma lift_date_simps:
  "lift_date (Inr dt) = Inr (PyDate dt)" "lift_date (Inl e) = Inl e"
  by (simp_all add: lift_date_def)

lemma plus_date:
  "delta_plus v (PyDate dt) = lift_date (add_datetime v dt)"
  "plus_delta (PyDate dt) v = lift_date (add_datetime v dt)"
  by (simp_all add: delta_plus_def plus_delta_def dunder_add_def dunder_radd_def
      unsupported_def lift_date_def split: sum.splits)

lemma valid_temporal_day: "valid_temporal dt \<Longrightarrow> 1 \<le> day dt"
  by (cases dt) simp_all

lemma replace_valid:
  assumes "valid_temporal dt" "check_date_args y m d = Inr ()"
  shows "replace dt y m d =
    Inr (case dt of Date _ _ _ \<Rightarrow> Date y m d | DateTime _ _ _ t \<Rightarrow> DateTime y m d t)"
  using assms by (cases dt) (simp_all add: check_time_args_def)

lemma replace_invalid:
  assumes "valid_temporal dt" "check_date_args y m d = Inl e"
  shows "replace dt y m d = Inl e"
  using assms by (cases dt) simp_all

text \<open>
  Claim C2, as amended. For every valid date or date-time and every delta \<open>v\<close> with
  rounding set, whose normalised target \<open>(y', m')\<close> of
  \<open>(year + years v, month + months v)\<close> lies in the range of the host
  (\<open>MINYEAR \<le> y' \<le> MAXYEAR\<close> and \<open>1 \<le> m'\<close>), adding \<open>v\<close> in either operand order
  returns the value with year \<open>y'\<close>, month \<open>m'\<close>, day
  \<open>min day (days_in_month y' m')\<close> and, for a date-time, the same time of day.
\<close>

theorem apply_rounding_spec:
  assumes "valid_temporal (Date y0 m0 d0)" and "valid_time t"
    and "rounding v"
    and "normalize (y0 + years v) (m0 + months v) = (y', m')"
    and "MINYEAR \<le> y'" "y' \<le> MAXYEAR" "1 \<le> m'"
  shows "delta_plus v (PyDate (Date y0 m0 d0)) =
           Inr (PyDate (Date y' m' (min d0 (days_in_month y' m')))) \<and>
         plus_delta (PyDate (Date y0 m0 d0)) v =
           Inr (PyDate (Date y' m' (min d0 (days_in_month y' m')))) \<and>
         delta_plus v (PyDate (DateTime y0 m0 d0 t)) =
           Inr (PyDate (DateTime y' m' (min d0 (days_in_month y' m')) t)) \<and>
         plus_delta (PyDate (DateTime y0 m0 d0 t)) v =
           Inr (PyDate (DateTime y' m' (min d0 (days_in_month y' m')) t))"
proof -
  have le: "m' \<le> 12"
    using normalize_month_le [of "y0 + years v" "m0 + months v"] assms(4) by simp
  from assms(1) have d0: "1 \<le> d0" by simp
  have ok: "check_date_args y' m' (min d0 (days_in_month y' m')) = Inr ()"
    using assms(5-7) le d0 by (rule clamped_day_ok)
  have vt: "valid_temporal (DateTime y0 m0 d0 t)"
    using assms(1,2) by simp
  have a: "add_datetime v (Date y0 m0 d0) = Inr (Date y' m' (min d0 (days_in_month y' m')))"
    using add_datetime_rounding [of v "Date y0 m0 d0" y' m'] assms(3-7)
      replace_valid [OF assms(1) ok] by simp
  have b: "add_datetime v (DateTime y0 m0 d0 t) =
      Inr (DateTime y' m' (min d0 (days_in_month y' m')) t)"
    using add_datetime_rounding [of v "DateTime y0 m0 d0 t" y' m'] assms(3-7)
      replace_valid [OF vt ok] by simp
  show ?thesis
    by (simp add: plus_date a b lift_date_simps)
qed

theorem apply_rounding_spec_witness:
  "valid_temporal (Date 2013 3 31) \<and> valid_time \<lparr>hour = 0, minute = 0, second = 0, microsecond = 0\<rparr> \<and> rounding \<lparr>years = 0, months = - 1, rounding = True\<rparr> \<and>
   normalize (2013 + years \<lparr>years = 0, months = - 1, rounding = True\<rparr>) (3 + months \<lparr>years = 0, months = - 1, rounding = True\<rparr>) = (2013, 2) \<and>
   MINYEAR \<le> 2013 \<and> 2013 \<le> MAXYEAR \<and>
   delta_plus \<lparr>years = 0, months = - 1, rounding = True\<rparr> (PyDate (DateTime 2013 3 31 \<lparr>hour = 0, minute = 0, second = 0, microsecond = 0\<rparr>)) = Inr (PyDate (DateTime 2013 2 28 \<lparr>hour = 0, minute = 0, second = 0, microsecond = 0\<rparr>)) \<and>
   plus_delta (PyDate (DateTime 2013 3 31 \<lparr>hour = 0, minute = 0, second = 0, microsecond = 0\<rparr>)) \<lparr>years = 0, months = - 1, rounding = True\<rparr> = Inr (PyDate (DateTime 2013 2 28 \<lparr>hour = 0, minute = 0, second = 0, microsecond = 0\<rparr>)) \<and>
   plus_delta (PyDate (Date 2013 3 31)) \<lparr>years = 0, months = - 1, rounding = True\<rparr> = Inr (PyDate (Date 2013 2 28))"
proof -
  have h1: "valid_temporal (Date 2013 3 31)"
    by (simp add: MINYEAR_def MAXYEAR_def days_in_month_def mdays_def)
  have h2: "valid_time \<lparr>hour = 0, minute = 0, second = 0, microsecond = 0\<rparr>"
    by (simp add: valid_time_def)
  have h3: "rounding \<lparr>years = 0, months = - 1, rounding = True\<rparr>"
    by simp
  have h4: "normalize (2013 + years \<lparr>years = 0, months = - 1, rounding = True\<rparr>) (3 + months \<lparr>years = 0, months = - 1, rounding = True\<rparr>) = (2013, 2)"
    by (simp add: normalize_def py_divmod_def)
  have h5: "MINYEAR \<le> 2013" and h6: "2013 \<le> MAXYEAR" and h7: "(1::int) \<le> 2"
    by (simp_all add: MINYEAR_def MAXYEAR_def)
  have d: "min 31 (days_in_month 2013 2) = 28"
    by (simp add: days_in_month_def mdays_def isleap_def)
  from apply_rounding_spec [OF h1 h2 h3 h4 h5 h6 h7] h1 h2 h3 h4 h5 h6 show ?thesis
    unfolding d by blast
qed

text \<open>
  The claim as the specification words it, for every valid date and every delta with
  rounding set, fails: one month before 15 January of year 1 is December of year 0,
  which the host's calendar rejects.
\<close>

theorem apply_rounding_counterexample:
  "valid_temporal (Date 1 1 15) \<and> rounding \<lparr>years = 0, months = - 1, rounding = True\<rparr> \<and>
   normalize (1 + years \<lparr>years = 0, months = - 1, rounding = True\<rparr>) (1 + months \<lparr>years = 0, months = - 1, rounding = True\<rparr>) = (0, 12) \<and>
   delta_plus \<lparr>years = 0, months = - 1, rounding = True\<rparr> (PyDate (Date 1 1 15)) = Inl YearOutOfRange \<and>
   plus_delta (PyDate (Date 1 1 15)) \<lparr>years = 0, months = - 1, rounding = True\<rparr> = Inl YearOutOfRange"
  by (simp add: MINYEAR_def MAXYEAR_def days_in_month_def mdays_def normalize_def
      py_divmod_def delta_plus_def plus_delta_def dunder_add_def dunder_radd_def
      add_datetime_def monthrange_def check_date_args_def lift_date_def unsupported_def)

text \<open>
  Claim C3, as amended. For every valid date or date-time and every delta \<open>v\<close> with
  rounding off, whose normalised target \<open>(y', m')\<close> lies in the range of the host
  (\<open>MINYEAR \<le> y' \<le> MAXYEAR\<close> and \<open>1 \<le> m'\<close>), applying \<open>v\<close> raises the
  day-out-of-range error if and only if the day exceeds \<open>days_in_month y' m'\<close>, and
  otherwise returns the value with year \<open>y'\<close>, month \<open>m'\<close>, the same day and the
  same time of day; both operand orders of \<open>+\<close> give the result of the application.
\<close>

theorem apply_strict_spec:
  assumes "valid_temporal (Date y0 m0 d0)" and "valid_time t"
    and "\<not> rounding v"
    and "normalize (y0 + years v) (m0 + months v) = (y', m')"
    and "MINYEAR \<le> y'" "y' \<le> MAXYEAR" "1 \<le> m'"
  shows "(add_datetime v (Date y0 m0 d0) = Inl DayOutOfRange \<longleftrightarrow> days_in_month y' m' < d0) \<and>
         (\<not> days_in_month y' m' < d0 \<longrightarrow>
            add_datetime v (Date y0 m0 d0) = Inr (Date y' m' d0)) \<and>
         (add_datetime v (DateTime y0 m0 d0 t) = Inl DayOutOfRange \<longleftrightarrow>
            days_in_month y' m' < d0) \<and>
         (\<not> days_in_month y' m' < d0 \<longrightarrow>
            add_datetime v (DateTime y0 m0 d0 t) = Inr (DateTime y' m' d0 t)) \<and>
         delta_plus v (PyDate (DateTime y0 m0 d0 t)) =
           lift_date (add_datetime v (DateTime y0 m0 d0 t)) \<and>
         plus_delta (PyDate (DateTime y0 m0 d0 t)) v =
           lift_date (add_datetime v (DateTime y0 m0 d0 t))"
proof -
  have le: "m' \<le> 12"
    using normalize_month_le [of "y0 + years v" "m0 + months v"] assms(4) by simp
  from assms(1) have d0: "1 \<le> d0" by simp
  have vt: "valid_temporal (DateTime y0 m0 d0 t)"
    using assms(1,2) by simp
  have a: "add_datetime v (Date y0 m0 d0) = replace (Date y0 m0 d0) y' m' d0"
    using add_datetime_strict [of v "Date y0 m0 d0" y' m'] assms(3,4) by simp
  have b: "add_datetime v (DateTime y0 m0 d0 t) = replace (DateTime y0 m0 d0 t) y' m' d0"
    using add_datetime_strict [of v "DateTime y0 m0 d0 t" y' m'] assms(3,4) by simp
  show ?thesis
  proof (cases "days_in_month y' m' < d0")
    case True
    with assms(5-7) le have "check_date_args y' m' d0 = Inl DayOutOfRange"
      by (simp add: check_date_args_def)
    with True show ?thesis
      by (simp add: a b plus_date replace_invalid [OF assms(1)] replace_invalid [OF vt])
  next
    case False
    with assms(5-7) le d0 have ok: "check_date_args y' m' d0 = Inr ()"
      by (simp add: check_date_args_ok)
    have ra: "replace (Date y0 m0 d0) y' m' d0 = Inr (Date y' m' d0)"
      using replace_valid [OF assms(1) ok] by simp
    have rb: "replace (DateTime y0 m0 d0 t) y' m' d0 = Inr (DateTime y' m' d0 t)"
      using replace_valid [OF vt ok] by simp
    have a': "add_datetime v (Date y0 m0 d0) = Inr (Date y' m' d0)"
      by (simp only: a ra)
    have b': "add_datetime v (DateTime y0 m0 d0 t) = Inr (DateTime y' m' d0 t)"
      by (simp only: b rb)
    from False show ?thesis
      by (simp add: plus_date a' b')
  qed
qed

theorem apply_strict_spec_witness:
  "valid_temporal (Date 2013 3 31) \<and> valid_time \<lparr>hour = 0, minute = 0, second = 0, microsecond = 0\<rparr> \<and> \<not> rounding \<lparr>years = 0, months = - 1, rounding = False\<rparr> \<and>
   normalize (2013 + years \<lparr>years = 0, months = - 1, rounding = False\<rparr>) (3 + months \<lparr>years = 0, months = - 1, rounding = False\<rparr>) = (2013, 2) \<and>
   MINYEAR \<le> 2013 \<and> 2013 \<le> MAXYEAR \<and> days_in_month 2013 2 < 31 \<and>
   add_datetime \<lparr>years = 0, months = - 1, rounding = False\<rparr> (DateTime 2013 3 31 \<lparr>hour = 0, minute = 0, second = 0, microsecond = 0\<rparr>) = Inl DayOutOfRange \<and>
   plus_delta (PyDate (DateTime 2013 3 31 \<lparr>hour = 0, minute = 0, second = 0, microsecond = 0\<rparr>)) \<lparr>years = 0, months = - 1, rounding = False\<rparr> = Inl DayOutOfRange"
proof -
  have h1: "valid_temporal (Date 2013 3 31)"
    by (simp add: MINYEAR_def MAXYEAR_def days_in_month_def mdays_def)
  have h2: "valid_time \<lparr>hour = 0, minute = 0, second = 0, microsecond = 0\<rparr>"
    by (simp add: valid_time_def)
  have h3: "\<not> rounding \<lparr>years = 0, months = - 1, rounding = False\<rparr>"
    by simp
  have h4: "normalize (2013 + years \<lparr>years = 0, months = - 1, rounding = False\<rparr>) (3 + months \<lparr>years = 0, months = - 1, rounding = False\<rparr>) = (2013, 2)"
    by (simp add: normalize_def py_divmod_def)
  have h5: "MINYEAR \<le> 2013" and h6: "2013 \<le> MAXYEAR" and h7: "(1::int) \<le> 2"
    by (simp_all add: MINYEAR_def MAXYEAR_def)
  have d: "days_in_month 2013 2 < 31"
    by (simp add: days_in_month_def mdays_def isleap_def)
  from apply_strict_spec [OF h1 h2 h3 h4 h5 h6 h7] d
  have r: "add_datetime \<lparr>years = 0, months = - 1, rounding = False\<rparr> (DateTime 2013 3 31 \<lparr>hour = 0, minute = 0, second = 0, microsecond = 0\<rparr>) = Inl DayOutOfRange"
    and p: "plus_delta (PyDate (DateTime 2013 3 31 \<lparr>hour = 0, minute = 0, second = 0, microsecond = 0\<rparr>)) \<lparr>years = 0, months = - 1, rounding = False\<rparr> =
      lift_date (add_datetime \<lparr>years = 0, months = - 1, rounding = False\<rparr> (DateTime 2013 3 31 \<lparr>hour = 0, minute = 0, second = 0, microsecond = 0\<rparr>))"
    by blast+
  from h1 h2 h3 h4 h5 h6 d r p show ?thesis
    by (simp add: lift_date_simps)
qed

text \<open>
  The claim as the specification words it fails where the target leaves the host's
  range: for 15 January of year 1 and one month back without rounding, the day does
  not exceed the 31 days of a December, yet no date is returned, and the error is the
  one for the year, not the one for the day.
\<close>

theorem apply_strict_counterexample:
  "valid_temporal (Date 1 1 15) \<and> \<not> rounding \<lparr>years = 0, months = - 1, rounding = False\<rparr> \<and>
   normalize (1 + years \<lparr>years = 0, months = - 1, rounding = False\<rparr>) (1 + months \<lparr>years = 0, months = - 1, rounding = False\<rparr>) = (0, 12) \<and>
   \<not> days_in_month 0 12 < 15 \<and>
   add_datetime \<lparr>years = 0, months = - 1, rounding = False\<rparr> (Date 1 1 15) = Inl YearOutOfRange \<and>
   plus_delta (PyDate (Date 1 1 15)) \<lparr>years = 0, months = - 1, rounding = False\<rparr> = Inl YearOutOfRange"
  by (simp add: MINYEAR_def MAXYEAR_def days_in_month_def mdays_def normalize_def
      py_divmod_def plus_delta_def dunder_radd_def add_datetime_def check_date_args_def
      lift_date_def)

text \<open>
  Claim C10. With rounding set, applying a delta to a valid date is not total: it
  returns a date if and only if the normalised target \<open>(y', m')\<close> is a position of the
  host's calendar, \<open>MINYEAR \<le> y' \<le> MAXYEAR\<close> and \<open>1 \<le> m'\<close>, that is, if and only
  if the target total of months is positive and falls in a representable year
  (between 13 and 120000); when the total is zero or negative the lookup of the days
  of the month fails although rounding is set.
\<close>

theorem apply_rounding_partial:
  assumes "valid_temporal dt" and "rounding v"
    and "normalize (year dt + years v) (month dt + months v) = (y', m')"
  shows "((\<exists>r. add_datetime v dt = Inr r) \<longleftrightarrow>
            MINYEAR \<le> y' \<and> y' \<le> MAXYEAR \<and> 1 \<le> m') \<and>
         ((\<exists>r. add_datetime v dt = Inr r) \<longleftrightarrow>
            12 < (year dt + years v) * 12 + (month dt + months v) \<and>
            (year dt + years v) * 12 + (month dt + months v) \<le> 120000) \<and>
         ((year dt + years v) * 12 + (month dt + months v) \<le> 0 \<longrightarrow>
            add_datetime v dt = Inl IllegalMonthError)"
proof -
  let ?total = "(year dt + years v) * 12 + (month dt + months v)"
  have le: "m' \<le> 12"
    using normalize_month_le [of "year dt + years v" "month dt + months v"] assms(3) by simp
  have pos: "1 \<le> m' \<longleftrightarrow> 0 < ?total"
    using normalize_month_pos [of "year dt + years v" "month dt + months v"] assms(3) by simp
  have rng: "(MINYEAR \<le> y' \<and> y' \<le> MAXYEAR \<and> 1 \<le> m') \<longleftrightarrow> (12 < ?total \<and> ?total \<le> 120000)"
    using assms(3) by (rule normalize_target_range)
  have main: "(\<exists>r. add_datetime v dt = Inr r) \<longleftrightarrow> MINYEAR \<le> y' \<and> y' \<le> MAXYEAR \<and> 1 \<le> m'"
  proof (cases "MINYEAR \<le> y' \<and> y' \<le> MAXYEAR \<and> 1 \<le> m'")
    case True
    then have ok: "check_date_args y' m' (min (day dt) (days_in_month y' m')) = Inr ()"
      using le valid_temporal_day [OF assms(1)] by (intro clamped_day_ok) simp_all
    from True have "add_datetime v dt = replace dt y' m' (min (day dt) (days_in_month y' m'))"
      using add_datetime_rounding [OF assms(2,3)] by simp
    with True show ?thesis
      by (simp add: replace_valid [OF assms(1) ok])
  next
    case False
    from add_datetime_rounding_fail [OF assms(2,3) False] False show ?thesis
      by simp
  qed
  have neg: "?total \<le> 0 \<longrightarrow> add_datetime v dt = Inl IllegalMonthError"
  proof
    assume "?total \<le> 0"
    with pos have m: "m' < 1" by linarith
    then have "\<not> (MINYEAR \<le> y' \<and> y' \<le> MAXYEAR \<and> 1 \<le> m')" by simp
    from add_datetime_rounding_fail [OF assms(2,3) this] m
    show "add_datetime v dt = Inl IllegalMonthError" by simp
  qed
  from main rng neg show ?thesis by blast
qed

theorem apply_rounding_partial_witness:
  "(valid_temporal (DateTime 2013 3 31 \<lparr>hour = 0, minute = 0, second = 0, microsecond = 0\<rparr>) \<and> rounding \<lparr>years = 0, months = - 1, rounding = True\<rparr> \<and>
    normalize (year (DateTime 2013 3 31 \<lparr>hour = 0, minute = 0, second = 0, microsecond = 0\<rparr>) + years \<lparr>years = 0, months = - 1, rounding = True\<rparr>)
      (month (DateTime 2013 3 31 \<lparr>hour = 0, minute = 0, second = 0, microsecond = 0\<rparr>) + months \<lparr>years = 0, months = - 1, rounding = True\<rparr>) = (2013, 2) \<and>
    (\<exists>r. add_datetime \<lparr>years = 0, months = - 1, rounding = True\<rparr> (DateTime 2013 3 31 \<lparr>hour = 0, minute = 0, second = 0, microsecond = 0\<rparr>) = Inr r)) \<and>
   (valid_temporal (Date 1 1 15) \<and> rounding \<lparr>years = 0, months = - 13, rounding = True\<rparr> \<and>
    normalize (year (Date 1 1 15) + years \<lparr>years = 0, months = - 13, rounding = True\<rparr>) (month (Date 1 1 15) + months \<lparr>years = 0, months = - 13, rounding = True\<rparr>) = (0, 0) \<and>
    (year (Date 1 1 15) + years \<lparr>years = 0, months = - 13, rounding = True\<rparr>) * 12 + (month (Date 1 1 15) + months \<lparr>years = 0, months = - 13, rounding = True\<rparr>) \<le> 0 \<and>
    add_datetime \<lparr>years = 0, months = - 13, rounding = True\<rparr> (Date 1 1 15) = Inl IllegalMonthError \<and>
    \<not> (\<exists>r. add_datetime \<lparr>years = 0, months = - 13, rounding = True\<rparr> (Date 1 1 15) = Inr r))"
proof -
  have a1: "valid_temporal (DateTime 2013 3 31 \<lparr>hour = 0, minute = 0, second = 0, microsecond = 0\<rparr>)"
    by (simp add: MINYEAR_def MAXYEAR_def days_in_month_def mdays_def valid_time_def)
  have a2: "rounding \<lparr>years = 0, months = - 1, rounding = True\<rparr>"
    by simp
  have a3: "normalize (year (DateTime 2013 3 31 \<lparr>hour = 0, minute = 0, second = 0, microsecond = 0\<rparr>) + years \<lparr>years = 0, months = - 1, rounding = True\<rparr>)
      (month (DateTime 2013 3 31 \<lparr>hour = 0, minute = 0, second = 0, microsecond = 0\<rparr>) + months \<lparr>years = 0, months = - 1, rounding = True\<rparr>) = (2013, 2)"
    by (simp add: normalize_def py_divmod_def)
  have a4: "MINYEAR \<le> 2013 \<and> 2013 \<le> MAXYEAR \<and> (1::int) \<le> 2"
    by (simp add: MINYEAR_def MAXYEAR_def)
  from apply_rounding_partial [OF a1 a2 a3] a4
  have a: "\<exists>r. add_datetime \<lparr>years = 0, months = - 1, rounding = True\<rparr> (DateTime 2013 3 31 \<lparr>hour = 0, minute = 0, second = 0, microsecond = 0\<rparr>) = Inr r"
    by blast
  have b1: "valid_temporal (Date 1 1 15)"
    by (simp add: MINYEAR_def MAXYEAR_def days_in_month_def mdays_def)
  have b2: "rounding \<lparr>years = 0, months = - 13, rounding = True\<rparr>"
    by simp
  have b3: "normalize (year (Date 1 1 15) + years \<lparr>years = 0, months = - 13, rounding = True\<rparr>) (month (Date 1 1 15) + months \<lparr>years = 0, months = - 13, rounding = True\<rparr>) = (0, 0)"
    by (simp add: normalize_def py_divmod_def)
  have b4: "(year (Date 1 1 15) + years \<lparr>years = 0, months = - 13, rounding = True\<rparr>) * 12 + (month (Date 1 1 15) + months \<lparr>years = 0, months = - 13, rounding = True\<rparr>) \<le> 0"
    by simp
  have b5: "\<not> (MINYEAR \<le> 0 \<and> 0 \<le> MAXYEAR \<and> (1::int) \<le> 0)"
    by simp
  from apply_rounding_partial [OF b1 b2 b3] b4 b5
  have b: "add_datetime \<lparr>years = 0, months = - 13, rounding = True\<rparr> (Date 1 1 15) = Inl IllegalMonthError"
    and c: "\<not> (\<exists>r. add_datetime \<lparr>years = 0, months = - 13, rounding = True\<rparr> (Date 1 1 15) = Inr r)"
    by blast+
  from a1 a2 a3 a b1 b2 b3 b4 b c show ?thesis
    by blast
qed

section \<open>Arithmetic of deltas\<close>

text \<open>
  Claim C4. For all deltas \<open>a\<close> and \<open>b\<close>, \<open>a + b\<close> is the delta of the raw sums of the
  years and of the months, with the conjunction of the two rounding flags, and nothing
  is normalised; for every integer \<open>n\<close>, \<open>a + n\<close> is \<open>a\<close> with \<open>n\<close> added to its
  months; and \<open>n + a\<close>, with the integer on the left, fails with a type error.
\<close>

theorem add_spec:
  "delta_plus a (Ymd b) =
     Inr (Ymd \<lparr>years = years a + years b, months = months a + months b,
               rounding = (rounding a \<and> rounding b)\<rparr>) \<and>
   plus_delta (Ymd a) b = delta_plus a (Ymd b) \<and>
   delta_plus a (PyInt n) =
     Inr (Ymd \<lparr>years = years a, months = months a + n, rounding = rounding a\<rparr>) \<and>
   plus_delta (PyInt n) a = Inl TypeError"
  by (simp add: delta_plus_def plus_delta_def dunder_add_def dunder_radd_def unsupported_def)

theorem add_spec_witness:
  "delta_plus \<lparr>years = 2, months = 1, rounding = True\<rparr>
       (Ymd \<lparr>years = 1, months = - 5, rounding = True\<rparr>) =
     Inr (Ymd \<lparr>years = 3, months = - 4, rounding = True\<rparr>) \<and>
   normalize 3 (- 4) \<noteq> (3, - 4) \<and>
   delta_plus \<lparr>years = 1, months = 0, rounding = True\<rparr>
       (Ymd \<lparr>years = 1, months = 0, rounding = False\<rparr>) =
     Inr (Ymd \<lparr>years = 2, months = 0, rounding = False\<rparr>) \<and>
   delta_plus \<lparr>years = 1, months = 11, rounding = True\<rparr> (PyInt 2) =
     Inr (Ymd \<lparr>years = 1, months = 13, rounding = True\<rparr>) \<and>
   plus_delta (PyInt 1) \<lparr>years = 0, months = 1, rounding = True\<rparr> = Inl TypeError"
proof -
  have n: "normalize 3 (- 4) \<noteq> (3, - 4)"
    by (simp add: normalize_def py_divmod_def)
  from add_spec [of "\<lparr>years = 2, months = 1, rounding = True\<rparr>"
      "\<lparr>years = 1, months = - 5, rounding = True\<rparr>"]
    add_spec [of "\<lparr>years = 1, months = 0, rounding = True\<rparr>"
      "\<lparr>years = 1, months = 0, rounding = False\<rparr>"]
    add_spec [of "\<lparr>years = 1, months = 11, rounding = True\<rparr>" _ 2]
    add_spec [of "\<lparr>years = 0, months = 1, rounding = True\<rparr>" _ 1] n
  show ?thesis by simp
qed

text \<open>
  Claim C7. For every date \<open>dt\<close> and delta \<open>v\<close>, \<open>dt - v\<close> is the application of the
  negated delta (the years and months negated, the rounding flag kept) to \<open>dt\<close>; for a
  delta or an integer \<open>x\<close>, \<open>v - x\<close> is \<open>v + (- x)\<close>; and a delta minus a date fails
  with a type error.
\<close>

theorem sub_spec:
  "minus_delta (PyDate dt) v = lift_date (add_datetime (dunder_neg v) dt) \<and>
   minus_delta (PyDate dt) v = plus_delta (PyDate dt) (dunder_neg v) \<and>
   minus_delta (PyDate dt) v = delta_plus (dunder_neg v) (PyDate dt) \<and>
   dunder_neg v = \<lparr>years = - years v, months = - months v, rounding = rounding v\<rparr> \<and>
   delta_minus v (Ymd b) = delta_plus v (Ymd (dunder_neg b)) \<and>
   delta_minus v (PyInt n) = delta_plus v (PyInt (- n)) \<and>
   delta_minus v (PyDate dt) = Inl TypeError"
  by (simp add: minus_delta_def plus_delta_def delta_minus_def delta_plus_def dunder_rsub_def
      dunder_radd_def dunder_sub_def dunder_add_def py_neg_def dunder_neg_def unsupported_def
      lift_date_def split: sum.splits)

theorem sub_spec_witness:
  "minus_delta (PyDate (DateTime 2004 2 29 \<lparr>hour = 0, minute = 0, second = 0, microsecond = 0\<rparr>))
     \<lparr>years = 4, months = 0, rounding = True\<rparr> =
     Inr (PyDate (DateTime 2000 2 29 \<lparr>hour = 0, minute = 0, second = 0, microsecond = 0\<rparr>)) \<and>
   delta_minus \<lparr>years = 1, months = 11, rounding = True\<rparr> (PyInt 1) =
     Inr (Ymd \<lparr>years = 1, months = 10, rounding = True\<rparr>) \<and>
   delta_minus \<lparr>years = 1, months = 11, rounding = True\<rparr> (PyDate (Date 2000 1 1)) =
     Inl TypeError"
proof -
  have n: "dunder_neg \<lparr>years = 4, months = 0, rounding = True\<rparr> =
      \<lparr>years = - 4, months = 0, rounding = True\<rparr>"
    by (simp add: dunder_neg_def)
  have a: "add_datetime \<lparr>years = - 4, months = 0, rounding = True\<rparr>
      (DateTime 2004 2 29 \<lparr>hour = 0, minute = 0, second = 0, microsecond = 0\<rparr>) =
      Inr (DateTime 2000 2 29 \<lparr>hour = 0, minute = 0, second = 0, microsecond = 0\<rparr>)"
    by (simp add: add_datetime_def normalize_def py_divmod_def monthrange_def
        check_date_args_def check_time_args_def valid_time_def days_in_month_def mdays_def
        isleap_def MINYEAR_def MAXYEAR_def)
  have p: "delta_plus \<lparr>years = 1, months = 11, rounding = True\<rparr> (PyInt (- 1)) =
      Inr (Ymd \<lparr>years = 1, months = 10, rounding = True\<rparr>)"
    by (simp add: delta_plus_def dunder_add_def unsupported_def)
  from sub_spec [of "DateTime 2004 2 29 \<lparr>hour = 0, minute = 0, second = 0, microsecond = 0\<rparr>"
      "\<lparr>years = 4, months = 0, rounding = True\<rparr>"]
    sub_spec [of "Date 2000 1 1" "\<lparr>years = 1, months = 11, rounding = True\<rparr>" _ 1]
  show ?thesis
    by (simp add: n a p lift_date_simps)
qed

text \<open>
  Claim C8. For every delta \<open>d\<close> and integer \<open>n\<close>, \<open>d * n\<close> and \<open>n * d\<close> both return
  the delta with the years and the months multiplied by \<open>n\<close> and the rounding flag of
  \<open>d\<close>; multiplying by an operand that is not an integer, a float among them, fails
  with a type error on either side.
\<close>

theorem mul_spec:
  "delta_times d (PyInt n) =
     Inr (Ymd \<lparr>years = years d * n, months = months d * n, rounding = rounding d\<rparr>) \<and>
   times_delta (PyInt n) d = delta_times d (PyInt n) \<and>
   (\<not> is_int x \<longrightarrow> delta_times d x = Inl TypeError \<and> times_delta x d = Inl TypeError)"
  by (cases x)
    (simp_all add: delta_times_def times_delta_def dunder_mul_def dunder_rmul_def
      unsupported_def is_int_def)

theorem mul_spec_witness:
  "delta_times \<lparr>years = 2, months = 1, rounding = True\<rparr> (PyInt 3) =
     Inr (Ymd \<lparr>years = 6, months = 3, rounding = True\<rparr>) \<and>
   times_delta (PyInt 3) \<lparr>years = 2, months = 1, rounding = True\<rparr> =
     Inr (Ymd \<lparr>years = 6, months = 3, rounding = True\<rparr>) \<and>
   \<not> is_int (PyFloat 1 1) \<and>
   delta_times \<lparr>years = 2, months = 1, rounding = True\<rparr> (PyFloat 1 1) = Inl TypeError \<and>
   times_delta (PyFloat 1 1) \<lparr>years = 2, months = 1, rounding = True\<rparr> = Inl TypeError"
proof -
  have h: "\<not> is_int (PyFloat 1 1)"
    by (simp add: is_int_def)
  from mul_spec [of "\<lparr>years = 2, months = 1, rounding = True\<rparr>" 3 "PyFloat 1 1"] h
  show ?thesis by simp
qed

section \<open>Comparison of deltas\<close>

text \<open>
  Claim C5. For all deltas \<open>a\<close> and \<open>b\<close>, each of the six comparison operators returns
  the corresponding comparison of the integers \<open>total_months a\<close> and
  \<open>total_months b\<close>, the raw \<open>years * 12 + months\<close>, which the rounding flag does
  not enter: deltas of equal total and different flags are equal.
\<close>

theorem compare_spec:
  "dunder_lt a (Ymd b) = Inr (total_months a < total_months b) \<and>
   dunder_le a (Ymd b) = Inr (total_months a \<le> total_months b) \<and>
   dunder_gt a (Ymd b) = Inr (total_months a > total_months b) \<and>
   dunder_ge a (Ymd b) = Inr (total_months a \<ge> total_months b) \<and>
   dunder_eq a (Ymd b) = Inr (total_months a = total_months b) \<and>
   dunder_ne a (Ymd b) = Inr (total_months a \<noteq> total_months b) \<and>
   total_months a = years a * 12 + months a \<and>
   total_months (a\<lparr>rounding := r\<rparr>) = total_months a"
  by (auto simp add: dunder_lt_def dunder_le_def dunder_gt_def dunder_ge_def dunder_eq_def
      dunder_ne_def lt_or_eq_def total_months_def)

theorem compare_spec_witness:
  "dunder_gt \<lparr>years = 1, months = 0, rounding = True\<rparr>
     (Ymd \<lparr>years = 0, months = 12, rounding = True\<rparr>) = Inr False \<and>
   dunder_gt \<lparr>years = 1, months = 0, rounding = True\<rparr>
     (Ymd \<lparr>years = 0, months = 11, rounding = True\<rparr>) = Inr True \<and>
   dunder_ge \<lparr>years = 1, months = 0, rounding = True\<rparr>
     (Ymd \<lparr>years = 0, months = 12, rounding = True\<rparr>) = Inr True \<and>
   dunder_eq \<lparr>years = 1, months = 0, rounding = True\<rparr>
     (Ymd \<lparr>years = 0, months = 12, rounding = False\<rparr>) = Inr True \<and>
   dunder_ne \<lparr>years = 1, months = 0, rounding = True\<rparr>
     (Ymd \<lparr>years = 1, months = 0, rounding = False\<rparr>) = Inr False"
proof -
  note a = compare_spec [of "\<lparr>years = 1, months = 0, rounding = True\<rparr>"
      "\<lparr>years = 0, months = 12, rounding = True\<rparr>"]
  note b = compare_spec [of "\<lparr>years = 1, months = 0, rounding = True\<rparr>"
      "\<lparr>years = 0, months = 11, rounding = True\<rparr>"]
  note c = compare_spec [of "\<lparr>years = 1, months = 0, rounding = True\<rparr>"
      "\<lparr>years = 0, months = 12, rounding = False\<rparr>"]
  note d = compare_spec [of "\<lparr>years = 1, months = 0, rounding = True\<rparr>"
      "\<lparr>years = 1, months = 0, rounding = False\<rparr>"]
  from a b c d show ?thesis
    by (simp add: total_months_def)
qed

text \<open>
  Claim C6. For every delta \<open>d\<close> and every operand \<open>x\<close> that is not a delta, each of
  the four orderings of \<open>d\<close> against \<open>x\<close> fails with a type error, and so do equality
  and inequality, which return no boolean.
\<close>

theorem compare_other_spec:
  assumes "\<not> is_ymd x"
  shows "dunder_lt d x = Inl TypeError \<and> dunder_le d x = Inl TypeError \<and>
    dunder_gt d x = Inl TypeError \<and> dunder_ge d x = Inl TypeError \<and>
    dunder_eq d x = Inl TypeError \<and> dunder_ne d x = Inl TypeError"
  using assms
  by (cases x)
    (simp_all add: is_ymd_def dunder_lt_def dunder_le_def dunder_gt_def dunder_ge_def
      dunder_eq_def dunder_ne_def lt_or_eq_def)

theorem compare_other_spec_witness:
  "\<not> is_ymd (PyInt 1) \<and>
   dunder_gt \<lparr>years = 1, months = 11, rounding = True\<rparr> (PyInt 1) = Inl TypeError \<and>
   dunder_eq \<lparr>years = 1, months = 11, rounding = True\<rparr> (PyInt 1) = Inl TypeError \<and>
   dunder_ne \<lparr>years = 1, months = 11, rounding = True\<rparr> (PyInt 1) = Inl TypeError"
proof -
  have h: "\<not> is_ymd (PyInt 1)"
    by (simp add: is_ymd_def)
  from compare_other_spec [OF h, of "\<lparr>years = 1, months = 11, rounding = True\<rparr>"] h
  show ?thesis by blast
qed

section \<open>Rendering of deltas\<close>

text \<open>
  Claim C9. The rendering of a delta normalises its years and months and writes the
  normalised years, the label \<open>year\<close> when their absolute value is 1 and \<open>years\<close>
  otherwise, the normalised months, and the label \<open>month\<close> when their absolute value
  is 1 and \<open>months\<close> otherwise, separated by single spaces; the delta of 1 year and
  -13 months is rendered as \<open>0 years -1 month\<close>.
\<close>

theorem str_spec:
  "dunder_str d =
     str_int (fst (normalize (years d) (months d))) @ '' '' @
     (if \<bar>fst (normalize (years d) (months d))\<bar> = 1 then ''year'' else ''years'') @ '' '' @
     str_int (snd (normalize (years d) (months d))) @ '' '' @
     (if \<bar>snd (normalize (years d) (months d))\<bar> = 1 then ''month'' else ''months'') \<and>
   dunder_str \<lparr>years = 1, months = - 13, rounding = True\<rparr> = ''0 years -1 month''"
proof
  show "dunder_str d =
     str_int (fst (normalize (years d) (months d))) @ '' '' @
     (if \<bar>fst (normalize (years d) (months d))\<bar> = 1 then ''year'' else ''years'') @ '' '' @
     str_int (snd (normalize (years d) (months d))) @ '' '' @
     (if \<bar>snd (normalize (years d) (months d))\<bar> = 1 then ''month'' else ''months'')"
    by (simp add: dunder_str_def ngettext_def split_beta)
next
  show "dunder_str \<lparr>years = 1, months = - 13, rounding = True\<rparr> = ''0 years -1 month''"
    by (simp add: dunder_str_def normalize_def py_divmod_def str_int_def str_nat.simps
        ngettext_def)
qed

theorem str_spec_witness:
  "\<bar>fst (normalize 2 (- 4))\<bar> = 1 \<and> \<bar>snd (normalize 2 (- 4))\<bar> \<noteq> 1 \<and>
   dunder_str \<lparr>years = 2, months = - 4, rounding = False\<rparr> = ''1 year 8 months''"
proof -
  have n: "normalize 2 (- 4) = (1, 8)"
    by (simp add: normalize_def py_divmod_def)
  have s: "str_int 1 = ''1''" "str_int 8 = ''8''"
    by (simp_all add: str_int_def str_nat.simps)
  from str_spec [of "\<lparr>years = 2, months = - 4, rounding = False\<rparr>"] show ?thesis
    by (simp add: n s)
qed

end
